theory Spec2Isabelle
  imports Complex_Main
begin

section \<open>Numbers, vectors and matrices\<close>

text \<open>
  A C++ \<open>double\<close> is a finite number, one of the two infinities, or NaN. Finite values
  are idealised as reals: rounding, overflow, underflow and the sign of zero are left
  out. The special values follow IEEE 754: NaN propagates through arithmetic and makes
  every comparison false, \<open>inf - inf\<close> and \<open>0 * inf\<close> are NaN.
\<close>

datatype double = Finite real | PInf | NInf | NaN

fun is_finite :: "double \<Rightarrow> bool" where
  "is_finite (Finite x) = True"
| "is_finite PInf = False"
| "is_finite NInf = False"
| "is_finite NaN = False"

fun dneg :: "double \<Rightarrow> double" where
  "dneg (Finite x) = Finite (- x)"
| "dneg PInf = NInf"
| "dneg NInf = PInf"
| "dneg NaN = NaN"

fun dadd :: "double \<Rightarrow> double \<Rightarrow> double" where
  "dadd (Finite x) (Finite y) = Finite (x + y)"
| "dadd NaN b = NaN"
| "dadd a NaN = NaN"
| "dadd PInf NInf = NaN"
| "dadd NInf PInf = NaN"
| "dadd PInf b = PInf"
| "dadd a PInf = PInf"
| "dadd NInf b = NInf"
| "dadd a NInf = NInf"

definition dsub :: "double \<Rightarrow> double \<Rightarrow> double" where
  "dsub a b = dadd a (dneg b)"

text \<open>The sign of a product with an infinite factor; \<open>0 * inf\<close> is NaN.\<close>

definition inf_times :: "bool \<Rightarrow> real \<Rightarrow> double" where
  "inf_times positive x =
     (if x = 0 then NaN else if (0 < x) = positive then PInf else NInf)"

fun dmul :: "double \<Rightarrow> double \<Rightarrow> double" where
  "dmul (Finite x) (Finite y) = Finite (x * y)"
| "dmul NaN b = NaN"
| "dmul a NaN = NaN"
| "dmul PInf (Finite y) = inf_times True y"
| "dmul NInf (Finite y) = inf_times False y"
| "dmul (Finite x) PInf = inf_times True x"
| "dmul (Finite x) NInf = inf_times False x"
| "dmul PInf PInf = PInf"
| "dmul NInf NInf = PInf"
| "dmul PInf NInf = NInf"
| "dmul NInf PInf = NInf"

fun dabs :: "double \<Rightarrow> double" where
  "dabs (Finite x) = Finite \<bar>x\<bar>"
| "dabs PInf = PInf"
| "dabs NInf = PInf"
| "dabs NaN = NaN"

fun dle :: "double \<Rightarrow> double \<Rightarrow> bool" where
  "dle (Finite x) (Finite y) = (x \<le> y)"
| "dle NaN b = False"
| "dle a NaN = False"
| "dle NInf b = True"
| "dle a PInf = True"
| "dle a b = False"

fun dlt :: "double \<Rightarrow> double \<Rightarrow> bool" where
  "dlt (Finite x) (Finite y) = (x < y)"
| "dlt NaN b = False"
| "dlt a NaN = False"
| "dlt PInf b = False"
| "dlt a NInf = False"
| "dlt a b = True"

text \<open>\<open>a == b\<close> on doubles: NaN equals nothing, not even itself.\<close>

definition deq :: "double \<Rightarrow> double \<Rightarrow> bool" where
  "deq a b = (a \<noteq> NaN \<and> a = b)"

text \<open>
  \<open>std::pow(x, n)\<close> for an exponent that is a non-negative integer: \<open>pow(x, 0)\<close> is 1
  for every \<open>x\<close>, NaN included.
\<close>

primrec dpow :: "double \<Rightarrow> nat \<Rightarrow> double" where
  "dpow x 0 = Finite 1"
| "dpow x (Suc n) = dmul x (dpow x n)"

text \<open>
  An \<open>arma::rowvec\<close> is the list of its elements. As a matrix it has one row, whatever
  its number of elements: \<open>n_rows\<close> of a row vector is 1 and \<open>n_elem\<close> is its length.
\<close>

type_synonym rowvec = "double list"
type_synonym stringVector = "string list"

definition rowvec_n_rows :: "rowvec \<Rightarrow> nat" where
  "rowvec_n_rows v = 1"

definition n_elem :: "rowvec \<Rightarrow> nat" where
  "n_elem v = length v"

text \<open>
  \<open>arma::sum\<close> of a vector, accumulated from the left and exact on finite values.
  Where a result depends on how the sum is rounded, the sum is taken as a parameter.
\<close>

definition dsum :: "rowvec \<Rightarrow> double" where
  "dsum v = foldl dadd (Finite 0) v"

text \<open>\<open>arma::is_finite\<close> of a vector: every element is finite.\<close>

definition vec_is_finite :: "rowvec \<Rightarrow> bool" where
  "vec_is_finite v = list_all is_finite v"

text \<open>
  What can go wrong: Armadillo throws on operands of incompatible sizes and on a
  checked index out of bounds; an unchecked \<open>.at(i)\<close> beyond the end is undefined
  behaviour; \<open>solve\<close> throws when it finds no solution; \<open>max\<close> throws on an object
  without elements; a vector of a negative size cannot be allocated; \<open>error(...)\<close> of
  the library aborts the optimisation with a message.
\<close>

datatype error =
    IncompatibleDimensions
  | IndexOutOfBounds
  | UndefinedBehaviour
  | SolveFailed
  | EmptyObject
  | AllocationFailed
  | Fatal string

text \<open>The unchecked element access \<open>v.at(p)\<close>.\<close>

definition vec_at :: "rowvec \<Rightarrow> nat \<Rightarrow> error + double" where
  "vec_at v p = (if p < length v then Inr (v ! p) else Inl UndefinedBehaviour)"

section \<open>The ridge penalty (glmnet\_ridge.h)\<close>

record tuningParametersEnetGlmnet =
  alpha :: rowvec
  lambda :: rowvec
  weights :: rowvec

text \<open>The loop of \<open>penaltyRidgeGlmnet::getValue\<close> from index \<open>p\<close> on.\<close>

function ridgeValueLoop ::
  "rowvec \<Rightarrow> tuningParametersEnetGlmnet \<Rightarrow> nat \<Rightarrow> double \<Rightarrow> error + double" where
  "ridgeValueLoop parameterValues tuningParameters p penalty =
     (if p < n_elem parameterValues then
        (case vec_at (alpha tuningParameters) p of Inl e \<Rightarrow> Inl e | Inr a \<Rightarrow>
         case vec_at (lambda tuningParameters) p of Inl e \<Rightarrow> Inl e | Inr l \<Rightarrow>
         case vec_at (weights tuningParameters) p of Inl e \<Rightarrow> Inl e | Inr w \<Rightarrow>
         let lambda_i = dmul (dmul (dsub (Finite 1) a) l) w in
         ridgeValueLoop parameterValues tuningParameters (Suc p)
           (dadd penalty (dmul lambda_i (dpow (parameterValues ! p) 2))))
      else Inr penalty)"
  by pat_completeness auto
termination
  by (relation "measure (\<lambda>(v, t, p, s). length v - p)") (auto simp: n_elem_def)

text \<open>
  \<open>penaltyRidgeGlmnet::getValue\<close>. The sum of \<open>alpha\<close> in its guard is computed by
  \<open>arma::sum\<close>, a function of Armadillo: \<open>ridge_getValue_with\<close> takes that function as
  given, and \<open>ridge_getValue\<close> is the function with the sum accumulated from the left.
\<close>

definition ridge_getValue_with ::
  "(rowvec \<Rightarrow> double) \<Rightarrow> rowvec \<Rightarrow> stringVector \<Rightarrow> tuningParametersEnetGlmnet \<Rightarrow>
   error + double" where
  "ridge_getValue_with arma_sum parameterValues parameterLabels tuningParameters =
     (if deq (arma_sum (alpha tuningParameters))
             (Finite (real (n_elem (alpha tuningParameters))))
      then Inr (Finite 0)
      else ridgeValueLoop parameterValues tuningParameters 0 (Finite 0))"

definition ridge_getValue ::
  "rowvec \<Rightarrow> stringVector \<Rightarrow> tuningParametersEnetGlmnet \<Rightarrow> error + double" where
  "ridge_getValue parameterValues parameterLabels tuningParameters =
     ridge_getValue_with dsum parameterValues parameterLabels tuningParameters"

text \<open>The loop of \<open>penaltyRidgeGlmnet::getGradients\<close> from index \<open>p\<close> on.\<close>

function ridgeGradientsLoop ::
  "rowvec \<Rightarrow> tuningParametersEnetGlmnet \<Rightarrow> nat \<Rightarrow> rowvec \<Rightarrow> error + rowvec" where
  "ridgeGradientsLoop parameterValues tuningParameters p gradients =
     (if p < n_elem parameterValues then
        (case vec_at (alpha tuningParameters) p of Inl e \<Rightarrow> Inl e | Inr a \<Rightarrow>
         case vec_at (lambda tuningParameters) p of Inl e \<Rightarrow> Inl e | Inr l \<Rightarrow>
         case vec_at (weights tuningParameters) p of Inl e \<Rightarrow> Inl e | Inr w \<Rightarrow>
         let lambda_i = dmul (dmul (dsub (Finite 1) a) l) w in
         ridgeGradientsLoop parameterValues tuningParameters (Suc p)
           (gradients[p := dmul (dmul lambda_i (Finite 2)) (parameterValues ! p)]))
      else Inr gradients)"
  by pat_completeness auto
termination
  by (relation "measure (\<lambda>(v, t, p, g). length v - p)") (auto simp: n_elem_def)

text \<open>\<open>penaltyRidgeGlmnet::getGradients\<close>, in the same two steps.\<close>

definition ridge_getGradients_with ::
  "(rowvec \<Rightarrow> double) \<Rightarrow> rowvec \<Rightarrow> stringVector \<Rightarrow> tuningParametersEnetGlmnet \<Rightarrow>
   error + rowvec" where
  "ridge_getGradients_with arma_sum parameterValues parameterLabels tuningParameters =
     (let gradients = replicate (n_elem parameterValues) (Finite 0) in
      if deq (arma_sum (alpha tuningParameters))
             (Finite (real (n_elem (alpha tuningParameters))))
      then Inr gradients
      else ridgeGradientsLoop parameterValues tuningParameters 0 gradients)"

definition ridge_getGradients ::
  "rowvec \<Rightarrow> stringVector \<Rightarrow> tuningParametersEnetGlmnet \<Rightarrow> error + rowvec" where
  "ridge_getGradients parameterValues parameterLabels tuningParameters =
     ridge_getGradients_with dsum parameterValues parameterLabels tuningParameters"

section \<open>Matrices and the operations of the line search\<close>

text \<open>
  An \<open>arma::mat\<close>: its two dimensions and its entries by row and column.
\<close>

record mat =
  n_rows :: nat
  n_cols :: nat
  entries :: "nat \<Rightarrow> nat \<Rightarrow> double"

text \<open>\<open>s * v\<close>, every element scaled.\<close>

definition scalar_times :: "double \<Rightarrow> rowvec \<Rightarrow> rowvec" where
  "scalar_times s v = map (dmul s) v"

text \<open>\<open>a + b\<close> on row vectors; Armadillo throws when the lengths differ.\<close>

definition vec_plus :: "rowvec \<Rightarrow> rowvec \<Rightarrow> error + rowvec" where
  "vec_plus a b =
     (if length a \<noteq> length b then Inl IncompatibleDimensions
      else Inr (map2 dadd a b))"

text \<open>
  \<open>a * arma::trans(b)\<close>, a row times a column: the single entry of the 1 x 1 product.
\<close>

definition row_times_col :: "rowvec \<Rightarrow> rowvec \<Rightarrow> error + double" where
  "row_times_col a b =
     (if length a \<noteq> length b then Inl IncompatibleDimensions
      else Inr (dsum (map2 dmul a b)))"

text \<open>\<open>a * M\<close>, a row times a matrix.\<close>

definition row_times_mat :: "rowvec \<Rightarrow> mat \<Rightarrow> error + rowvec" where
  "row_times_mat a M =
     (if length a \<noteq> n_rows M then Inl IncompatibleDimensions
      else Inr (map (\<lambda>j. dsum (map (\<lambda>i. dmul (a ! i) (entries M i j)) [0..<n_rows M]))
                  [0..<n_cols M]))"

text \<open>
  The model and the smooth penalty are the two capabilities the optimizer consumes:
  \<open>fit\<close> and \<open>gradients\<close> of the model, \<open>getValue\<close> and \<open>getGradients\<close> of the penalty
  with tuning parameters of type \<open>'T\<close>. They report failure by non-finite values.
\<close>

record model =
  fit :: "rowvec \<Rightarrow> stringVector \<Rightarrow> double"
  gradients :: "rowvec \<Rightarrow> stringVector \<Rightarrow> rowvec"

record 'T smoothPenalty =
  getValue :: "rowvec \<Rightarrow> stringVector \<Rightarrow> 'T \<Rightarrow> double"
  getGradients :: "rowvec \<Rightarrow> stringVector \<Rightarrow> 'T \<Rightarrow> rowvec"

section \<open>Loops with \<open>continue\<close> and \<open>break\<close>\<close>

text \<open>
  \<open>for (int i = i0; i < n; i++) body\<close>: the body returns the new state and whether the
  loop goes on with the next index (\<open>continue\<close>, or the end of the body) or stops
  (\<open>break\<close>); an exception in the body ends the loop with that error.
\<close>

datatype control = Continue | Break

function for_loop ::
  "int \<Rightarrow> (nat \<Rightarrow> 's \<Rightarrow> error + 's \<times> control) \<Rightarrow> nat \<Rightarrow> 's \<Rightarrow> error + 's" where
  "for_loop n body i s =
     (if int i < n then
        (case body i s of
           Inl e \<Rightarrow> Inl e
         | Inr (s', Break) \<Rightarrow> Inr s'
         | Inr (s', Continue) \<Rightarrow> for_loop n body (Suc i) s')
      else Inr s)"
  by pat_completeness auto
termination
  by (relation "measure (\<lambda>(n, body, i, s). nat (n - int i))") auto

section \<open>The line search (bfgsOptim.h, bfgsLineSearch)\<close>

text \<open>
  The variables of \<open>bfgsLineSearch\<close> that live across iterations of its loop.
  \<open>fit_k\<close>, \<open>p_k\<close> and \<open>f_k\<close> are written in every iteration before they are read.
\<close>

record lineSearchState =
  gradients_k :: rowvec
  parameters_k :: rowvec
  currentStepSize :: double
  converged :: bool

text \<open>
  \<open>compareTo(0, 0)\<close>: the entry of the 1 x 1 matrix
  \<open>gradients_kMinus1 * trans(direction) + gamma * (direction * Hessian_kMinus1 *
  trans(direction)) + pen_d - pen_0\<close>.
\<close>

definition compareTo ::
  "rowvec \<Rightarrow> rowvec \<Rightarrow> double \<Rightarrow> mat \<Rightarrow> double \<Rightarrow> double \<Rightarrow> error + double" where
  "compareTo gradients_kMinus1 direction gamma Hessian_kMinus1 pen_d pen_0 =
     (case row_times_col gradients_kMinus1 direction of Inl e \<Rightarrow> Inl e | Inr gd \<Rightarrow>
      case row_times_mat direction Hessian_kMinus1 of Inl e \<Rightarrow> Inl e | Inr dH \<Rightarrow>
      case row_times_col dH direction of Inl e \<Rightarrow> Inl e | Inr dHd \<Rightarrow>
      Inr (dsub (dadd (dadd gd (dmul gamma dHd)) pen_d) pen_0))"

text \<open>
  One pass through the body of the line-search loop, at index \<open>iteration\<close>. The
  constants \<open>pen_0\<close>, \<open>f_0\<close> and \<open>pen_d\<close> are set before the loop and never
  change; the body reads them.
\<close>

definition lineSearchBody ::
  "model \<Rightarrow> 'T smoothPenalty \<Rightarrow> rowvec \<Rightarrow> stringVector \<Rightarrow> rowvec \<Rightarrow> double \<Rightarrow> rowvec \<Rightarrow>
   mat \<Rightarrow> 'T \<Rightarrow> double \<Rightarrow> double \<Rightarrow> double \<Rightarrow>
   nat \<Rightarrow> lineSearchState \<Rightarrow> error + lineSearchState \<times> control" where
  "lineSearchBody model_obj smoothPenalty_obj parameters_kMinus1 parameterLabels direction
       fit_kMinus1 gradients_kMinus1 Hessian_kMinus1 tuningParameters stepSize sigma gamma
       iteration st =
     (let pen_0 = Finite 0;
          f_0 = dadd fit_kMinus1 pen_0;
          pen_d = Finite 0;
          step = dpow stepSize iteration
      in
      case vec_plus parameters_kMinus1 (scalar_times step direction) of
        Inl e \<Rightarrow> Inl e
      | Inr candidate \<Rightarrow>
          let st1 = st\<lparr>currentStepSize := step, parameters_k := candidate\<rparr>;
              fit_k = dadd (fit model_obj candidate parameterLabels)
                           (getValue smoothPenalty_obj candidate parameterLabels tuningParameters)
          in
          if \<not> is_finite fit_k then Inr (st1, Continue)
          else
            let p_k = Finite 0;
                f_k = dadd fit_k p_k
            in
            case compareTo gradients_kMinus1 direction gamma Hessian_kMinus1 pen_d pen_0 of
              Inl e \<Rightarrow> Inl e
            | Inr c \<Rightarrow>
                let st2 = st1\<lparr>converged := dle (dsub f_k f_0) (dmul (dmul sigma step) c)\<rparr> in
                if converged st2 then
                  let st3 = st2\<lparr>gradients_k := gradients model_obj candidate parameterLabels\<rparr> in
                  if \<not> vec_is_finite (gradients_k st3) then Inr (st3, Continue)
                  else Inr (st3, Break)
                else Inr (st2, Continue))"

text \<open>
  What \<open>bfgsLineSearch\<close> gives back: the vector it returns, the warnings it emitted, and
  how many numbers of the random source have been drawn so far.
\<close>

record lineSearchReturn =
  returned :: rowvec
  warnings :: "string list"
  drawn :: nat

text \<open>
  The working step size before the loop: the clamp of a nominal step size of 1 or more,
  then the random reset. \<open>unif\<close> is the sequence of numbers the uniform random source
  produces and \<open>k\<close> the number already drawn; the result is the step size and the new
  count.
\<close>

definition initialStepSize :: "double \<Rightarrow> (nat \<Rightarrow> double) \<Rightarrow> nat \<Rightarrow> double \<times> nat" where
  "initialStepSize stepSize unif k =
     (let currentStepSize0 = (if dle (Finite 1) stepSize then Finite (9 / 10) else stepSize);
          randomNumber = unif k
      in if dlt randomNumber (Finite (1 / 4)) then (unif (Suc k), Suc (Suc k))
         else (currentStepSize0, Suc k))"

definition bfgsLineSearch ::
  "model \<Rightarrow> 'T smoothPenalty \<Rightarrow> rowvec \<Rightarrow> stringVector \<Rightarrow> rowvec \<Rightarrow> double \<Rightarrow> rowvec \<Rightarrow> mat \<Rightarrow>
   'T \<Rightarrow> double \<Rightarrow> double \<Rightarrow> double \<Rightarrow> int \<Rightarrow> int \<Rightarrow> (nat \<Rightarrow> double) \<Rightarrow> nat \<Rightarrow>
   error + lineSearchReturn" where
  "bfgsLineSearch model_obj smoothPenalty_obj parameters_kMinus1 parameterLabels direction
       fit_kMinus1 gradients_kMinus1 Hessian_kMinus1 tuningParameters
       stepSize sigma gamma maxIterLine verbose unif k =
     (let (working, k') = initialStepSize stepSize unif k;
          st0 = \<lparr>gradients_k = replicate (rowvec_n_rows gradients_kMinus1) NaN,
                 parameters_k = replicate (rowvec_n_rows gradients_kMinus1) NaN,
                 currentStepSize = working,
                 converged = False\<rparr>
      in case for_loop maxIterLine
                (lineSearchBody model_obj smoothPenalty_obj parameters_kMinus1 parameterLabels
                   direction fit_kMinus1 gradients_kMinus1 Hessian_kMinus1 tuningParameters
                   stepSize sigma gamma)
                0 st0 of
           Inl e \<Rightarrow> Inl e
         | Inr st \<Rightarrow>
             Inr \<lparr>returned = parameters_k st,
                  warnings = (if \<not> converged st then [''Line search did not converge.''] else []),
                  drawn = k'\<rparr>)"

section \<open>The optimizer (bfgsOptim.h, bfgsOptim)\<close>

datatype convergenceCriteriaBFGS = GLMNET_criterion | fitChange_criterion | gradients_criterion

text \<open>The fields of \<open>controlBFGS\<close>; \<open>control_.stepSize\<close> reads \<open>control_stepSize\<close>.\<close>

record controlBFGS =
  control_initialHessian :: mat
  control_stepSize :: double
  control_sigma :: double
  control_gamma :: double
  control_maxIterOut :: int
  control_maxIterIn :: int
  control_maxIterLine :: int
  control_breakOuter :: double
  control_breakInner :: double
  control_convergenceCriterion :: convergenceCriteriaBFGS
  control_verbose :: int

text \<open>The fields of \<open>fitResults\<close> that \<open>bfgsOptim\<close> fills.\<close>

record fitResults =
  res_convergence :: bool
  res_fit :: double
  res_fits :: rowvec
  res_parameterValues :: rowvec
  res_Hessian :: mat

text \<open>
  The variables of \<open>bfgsOptim\<close> that live across passes of the outer loop, under their
  names with \<open>outer_\<close> in front. Three more fields record what the function does beyond
  its variables: the warnings emitted so far, the count of random numbers drawn so far,
  and \<open>outer_gradientsSeen\<close>, which keeps the value of \<open>gradients_k\<close> of every pass so
  far, oldest first (the source does not store it; properties of the run refer to it).
\<close>

record bfgsState =
  outer_parameters_k :: rowvec
  outer_parameters_kMinus1 :: rowvec
  outer_direction :: rowvec
  outer_fit_k :: double
  outer_fit_kMinus1 :: double
  outer_penalizedFit_k :: double
  outer_penalizedFit_kMinus1 :: double
  outer_fits :: rowvec
  outer_gradients_k :: rowvec
  outer_gradients_kMinus1 :: rowvec
  outer_Hessian_k :: mat
  outer_Hessian_kMinus1 :: mat
  outer_breakOuter :: bool
  outer_warnings :: "string list"
  outer_drawn :: nat
  outer_gradientsSeen :: "rowvec list"

text \<open>\<open>v(i) = x\<close>, the checked element access of Armadillo, as an assignment.\<close>

definition vec_set :: "rowvec \<Rightarrow> nat \<Rightarrow> double \<Rightarrow> error + rowvec" where
  "vec_set v i x = (if i < length v then Inr (v[i := x]) else Inl IndexOutOfBounds)"

text \<open>\<open>v(i)\<close>, the checked element access of Armadillo, as a read.\<close>

definition vec_get :: "rowvec \<Rightarrow> nat \<Rightarrow> error + double" where
  "vec_get v i = (if i < length v then Inr (v ! i) else Inl IndexOutOfBounds)"

text \<open>\<open>M * v\<close> for a column \<open>v\<close>, given as the list of its elements.\<close>

definition mat_times_col :: "mat \<Rightarrow> rowvec \<Rightarrow> error + rowvec" where
  "mat_times_col M v =
     (if n_cols M \<noteq> length v then Inl IncompatibleDimensions
      else Inr (map (\<lambda>i. dsum (map (\<lambda>j. dmul (entries M i j) (v ! j)) [0..<n_cols M]))
                  [0..<n_rows M]))"

text \<open>
  \<open>max(v)\<close> of Armadillo: it starts from minus infinity and keeps every element that
  compares greater, so NaN elements are passed over; it throws on an empty object.
\<close>

definition vec_max :: "rowvec \<Rightarrow> error + double" where
  "vec_max v =
     (if v = [] then Inl EmptyObject
      else Inr (foldl (\<lambda>m x. if dlt m x then x else m) NInf v))"

text \<open>
  The matrix \<open>HessDiag\<close>: the size of \<open>Hessian_k\<close>, filled with 0, with the diagonal of
  \<open>Hessian_k\<close>.
\<close>

definition HessDiag :: "mat \<Rightarrow> mat" where
  "HessDiag Hessian_k =
     \<lparr>n_rows = n_rows Hessian_k, n_cols = n_cols Hessian_k,
      entries = (\<lambda>i j. if i = j then entries Hessian_k i i else Finite 0)\<rparr>"

text \<open>
  The three \<open>if\<close> statements that check convergence, one after the other; each assigns
  \<open>breakOuter\<close> when its criterion is the configured one and turns any exception of its
  computation into the fatal error of the library.
\<close>

definition criterionError :: error where
  "criterionError = Fatal ''Error while computing convergence criterion''"

definition checkConvergence ::
  "controlBFGS \<Rightarrow> nat \<Rightarrow> bfgsState \<Rightarrow> error + bfgsState" where
  "checkConvergence control_obj outer_iteration st =
     (case (if control_convergenceCriterion control_obj = GLMNET_criterion then
              (case mat_times_col (HessDiag (outer_Hessian_k st))
                      (map (\<lambda>x. dpow x 2) (outer_direction st)) of
                 Inl e \<Rightarrow> Inl criterionError
               | Inr v \<Rightarrow>
                   (case vec_max v of
                      Inl e \<Rightarrow> Inl criterionError
                    | Inr m \<Rightarrow>
                        Inr (st\<lparr>outer_breakOuter := dlt m (control_breakOuter control_obj)\<rparr>)))
            else Inr st) of
        Inl e \<Rightarrow> Inl e
      | Inr st1 \<Rightarrow>
     (case (if control_convergenceCriterion control_obj = fitChange_criterion then
              (case vec_get (outer_fits st1) (outer_iteration + 1) of
                 Inl e \<Rightarrow> Inl criterionError
               | Inr a \<Rightarrow>
                   (case vec_get (outer_fits st1) outer_iteration of
                      Inl e \<Rightarrow> Inl criterionError
                    | Inr b \<Rightarrow>
                        Inr (st1\<lparr>outer_breakOuter :=
                               dlt (dabs (dsub a b)) (control_breakOuter control_obj)\<rparr>)))
            else Inr st1) of
        Inl e \<Rightarrow> Inl e
      | Inr st2 \<Rightarrow>
          if control_convergenceCriterion control_obj = gradients_criterion then
            let subGradients = outer_gradients_k st2 in
            Inr (st2\<lparr>outer_breakOuter :=
                   (sum_list (map (\<lambda>g. if dlt (dabs g) (control_breakOuter control_obj)
                                        then 1 else 0) subGradients)
                    = n_elem subGradients)\<rparr>)
          else Inr st2))"

text \<open>
  One pass through the body of the outer loop. \<open>solve\<close> is \<open>arma::solve\<close> and \<open>BFGS\<close> is
  the Hessian update \<open>lessSEM::BFGS\<close> of \<open>bfgs.h\<close>; both are taken as given, and both may
  fail. The progress output and the interrupt check of the host change no variable and
  are left out.
\<close>

definition outerBody ::
  "model \<Rightarrow> 'T smoothPenalty \<Rightarrow> stringVector \<Rightarrow> 'T \<Rightarrow> controlBFGS \<Rightarrow>
   (mat \<Rightarrow> rowvec \<Rightarrow> error + rowvec) \<Rightarrow>
   (rowvec \<Rightarrow> rowvec \<Rightarrow> mat \<Rightarrow> rowvec \<Rightarrow> rowvec \<Rightarrow> bool \<Rightarrow> double \<Rightarrow> bool \<Rightarrow> error + mat) \<Rightarrow>
   (nat \<Rightarrow> double) \<Rightarrow> nat \<Rightarrow> bfgsState \<Rightarrow> error + bfgsState \<times> control" where
  "outerBody model_obj smoothPenalty_obj parameterLabels tuningParameters control_obj
       solve BFGS unif outer_iteration st =
     (case vec_plus (gradients model_obj (outer_parameters_kMinus1 st) parameterLabels)
             (getGradients smoothPenalty_obj (outer_parameters_kMinus1 st) parameterLabels
                tuningParameters) of
        Inl e \<Rightarrow> Inl e
      | Inr g \<Rightarrow>
     let st1 = st\<lparr>outer_gradients_kMinus1 := g\<rparr> in
     (case solve (outer_Hessian_kMinus1 st1) (outer_gradients_kMinus1 st1) of
        Inl e \<Rightarrow> Inl e
      | Inr x \<Rightarrow>
     let st2 = st1\<lparr>outer_direction := map dneg x\<rparr> in
     (case bfgsLineSearch model_obj smoothPenalty_obj (outer_parameters_kMinus1 st2)
             parameterLabels (outer_direction st2) (outer_fit_kMinus1 st2)
             (outer_gradients_kMinus1 st2) (outer_Hessian_kMinus1 st2) tuningParameters
             (control_stepSize control_obj) (control_sigma control_obj)
             (control_gamma control_obj) (control_maxIterLine control_obj)
             (control_verbose control_obj) unif (outer_drawn st2) of
        Inl e \<Rightarrow> Inl e
      | Inr found \<Rightarrow>
     let st3 = st2\<lparr>outer_parameters_k := returned found,
                   outer_warnings := outer_warnings st2 @ warnings found,
                   outer_drawn := drawn found\<rparr> in
     (case vec_plus (gradients model_obj (outer_parameters_k st3) parameterLabels)
             (getGradients smoothPenalty_obj (outer_parameters_k st3) parameterLabels
                tuningParameters) of
        Inl e \<Rightarrow> Inl e
      | Inr g' \<Rightarrow>
     let st4 = st3\<lparr>outer_gradients_k := g',
                   outer_gradientsSeen := outer_gradientsSeen st3 @ [g'],
                   outer_fit_k :=
                     dadd (fit model_obj (outer_parameters_k st3) parameterLabels)
                          (getValue smoothPenalty_obj (outer_parameters_k st3) parameterLabels
                             tuningParameters)\<rparr>;
         st5 = st4\<lparr>outer_penalizedFit_k := outer_fit_k st4\<rparr> in
     (case vec_set (outer_fits st5) (outer_iteration + 1) (outer_penalizedFit_k st5) of
        Inl e \<Rightarrow> Inl e
      | Inr fits' \<Rightarrow>
     let st6 = st5\<lparr>outer_fits := fits'\<rparr> in
     (case BFGS (outer_parameters_kMinus1 st6) (outer_gradients_kMinus1 st6)
             (outer_Hessian_kMinus1 st6) (outer_parameters_k st6) (outer_gradients_k st6)
             True (Finite (1 / 1000)) (control_verbose control_obj = - 99) of
        Inl e \<Rightarrow> Inl e
      | Inr H \<Rightarrow>
     let st7 = st6\<lparr>outer_Hessian_k := H\<rparr> in
     (case checkConvergence control_obj outer_iteration st7 of
        Inl e \<Rightarrow> Inl e
      | Inr st8 \<Rightarrow>
          if outer_breakOuter st8 then Inr (st8, Break)
          else
            Inr (st8\<lparr>outer_fit_kMinus1 := outer_fit_k st8,
                      outer_penalizedFit_kMinus1 := outer_penalizedFit_k st8,
                      outer_parameters_kMinus1 := outer_parameters_k st8,
                      outer_gradients_kMinus1 := outer_gradients_k st8,
                      outer_Hessian_kMinus1 := outer_Hessian_k st8\<rparr>,
                 Continue))))))))"

text \<open>
  The state before the first pass. \<open>startingValuesRcpp\<close> is a numeric vector with names:
  its values and its labels. The vector \<open>fits\<close> has \<open>maxIterOut + 1\<close> elements, all
  \<open>NA_REAL\<close> (a NaN) but the first; for \<open>maxIterOut = -1\<close> it is empty and the write to
  its first element throws, for less it cannot be allocated.
\<close>

definition initialState ::
  "model \<Rightarrow> rowvec \<times> stringVector \<Rightarrow> 'T smoothPenalty \<Rightarrow> 'T \<Rightarrow> controlBFGS \<Rightarrow> nat \<Rightarrow>
   error + bfgsState" where
  "initialState model_obj startingValuesRcpp smoothPenalty_obj tuningParameters control_obj k =
     (let startingValues = fst startingValuesRcpp;
          parameterLabels = snd startingValuesRcpp;
          fit_k = dadd (fit model_obj startingValues parameterLabels)
                       (getValue smoothPenalty_obj startingValues parameterLabels tuningParameters)
      in
      if control_maxIterOut control_obj + 1 < 0 then Inl AllocationFailed
      else
        case vec_set (replicate (nat (control_maxIterOut control_obj + 1)) NaN) 0 fit_k of
          Inl e \<Rightarrow> Inl e
        | Inr fits \<Rightarrow>
        case vec_plus (gradients model_obj startingValues parameterLabels)
               (getGradients smoothPenalty_obj startingValues parameterLabels tuningParameters) of
          Inl e \<Rightarrow> Inl e
        | Inr g \<Rightarrow>
            Inr \<lparr>outer_parameters_k = startingValues,
                 outer_parameters_kMinus1 = startingValues,
                 outer_direction = replicate (n_elem startingValues) (Finite 0),
                 outer_fit_k = fit_k,
                 outer_fit_kMinus1 = fit_k,
                 outer_penalizedFit_k = fit_k,
                 outer_penalizedFit_kMinus1 = fit_k,
                 outer_fits = fits,
                 outer_gradients_k = g,
                 outer_gradients_kMinus1 = g,
                 outer_Hessian_k = control_initialHessian control_obj,
                 outer_Hessian_kMinus1 = control_initialHessian control_obj,
                 outer_breakOuter = False,
                 outer_warnings = [],
                 outer_drawn = k,
                 outer_gradientsSeen = []\<rparr>)"

text \<open>
  What \<open>bfgsOptim\<close> gives back: the fit result, the warnings emitted, the count of random
  numbers drawn, and the gradients of the passes.
\<close>

record bfgsReturn =
  optimResult :: fitResults
  optimWarnings :: "string list"
  optimDrawn :: nat
  optimGradients :: "rowvec list"

definition bfgsOptim ::
  "model \<Rightarrow> rowvec \<times> stringVector \<Rightarrow> 'T smoothPenalty \<Rightarrow> 'T \<Rightarrow> controlBFGS \<Rightarrow>
   (mat \<Rightarrow> rowvec \<Rightarrow> error + rowvec) \<Rightarrow>
   (rowvec \<Rightarrow> rowvec \<Rightarrow> mat \<Rightarrow> rowvec \<Rightarrow> rowvec \<Rightarrow> bool \<Rightarrow> double \<Rightarrow> bool \<Rightarrow> error + mat) \<Rightarrow>
   (nat \<Rightarrow> double) \<Rightarrow> nat \<Rightarrow> error + bfgsReturn" where
  "bfgsOptim model_obj startingValuesRcpp smoothPenalty_obj tuningParameters control_obj
       solve BFGS unif k =
     (case initialState model_obj startingValuesRcpp smoothPenalty_obj tuningParameters
             control_obj k of
        Inl e \<Rightarrow> Inl e
      | Inr st0 \<Rightarrow>
     (case for_loop (control_maxIterOut control_obj)
             (outerBody model_obj smoothPenalty_obj (snd startingValuesRcpp) tuningParameters
                control_obj solve BFGS unif)
             0 st0 of
        Inl e \<Rightarrow> Inl e
      | Inr st \<Rightarrow>
          Inr \<lparr>optimResult =
                 \<lparr>res_convergence = outer_breakOuter st,
                  res_fit = outer_penalizedFit_k st,
                  res_fits = outer_fits st,
                  res_parameterValues = outer_parameters_k st,
                  res_Hessian = outer_Hessian_k st\<rparr>,
               optimWarnings =
                 outer_warnings st @
                 (if \<not> outer_breakOuter st then [''Outer iterations did not converge'']
                  else []),
               optimDrawn = outer_drawn st,
               optimGradients = outer_gradientsSeen st\<rparr>))"

text \<open>
  The second interface takes the starting values and the labels apart and passes them on
  as one named vector.
\<close>

definition bfgsOptim_rowvec ::
  "model \<Rightarrow> rowvec \<Rightarrow> stringVector \<Rightarrow> 'T smoothPenalty \<Rightarrow> 'T \<Rightarrow> controlBFGS \<Rightarrow>
   (mat \<Rightarrow> rowvec \<Rightarrow> error + rowvec) \<Rightarrow>
   (rowvec \<Rightarrow> rowvec \<Rightarrow> mat \<Rightarrow> rowvec \<Rightarrow> rowvec \<Rightarrow> bool \<Rightarrow> double \<Rightarrow> bool \<Rightarrow> error + mat) \<Rightarrow>
   (nat \<Rightarrow> double) \<Rightarrow> nat \<Rightarrow> error + bfgsReturn" where
  "bfgsOptim_rowvec model_obj startingValues parameterLabels smoothPenalty_obj tuningParameters
       control_obj solve BFGS unif k =
     bfgsOptim model_obj (startingValues, parameterLabels) smoothPenalty_obj tuningParameters
       control_obj solve BFGS unif k"

section \<open>The formulas of the specification\<close>




text \<open>
  The line search as the specification words it. The candidate point is
  \<open>parameters_kMinus1 + stepLength * direction\<close>; the combined fit is the objective plus
  the smooth penalty; the sufficient-decrease test is
  \<open>f_k - f_0 <= sigma * stepLength * (gradient_kMinus1 . direction +
  gamma * direction^T * Hessian_kMinus1 * direction)\<close>.
\<close>

definition candidatePoint :: "rowvec \<Rightarrow> double \<Rightarrow> rowvec \<Rightarrow> rowvec" where
  "candidatePoint parameters_kMinus1 stepLength direction =
     map2 dadd parameters_kMinus1 (map (dmul stepLength) direction)"

definition combinedFit ::
  "model \<Rightarrow> 'T smoothPenalty \<Rightarrow> stringVector \<Rightarrow> 'T \<Rightarrow> rowvec \<Rightarrow> double" where
  "combinedFit model_obj smoothPenalty_obj parameterLabels tuningParameters p =
     dadd (fit model_obj p parameterLabels)
          (getValue smoothPenalty_obj p parameterLabels tuningParameters)"

definition dot :: "rowvec \<Rightarrow> rowvec \<Rightarrow> double" where
  "dot a b = dsum (map2 dmul a b)"

definition quadraticForm :: "rowvec \<Rightarrow> mat \<Rightarrow> double" where
  "quadraticForm d H =
     dot (map (\<lambda>j. dsum (map (\<lambda>i. dmul (d ! i) (entries H i j)) [0..<n_rows H]))
            [0..<n_cols H]) d"

definition sufficientDecrease ::
  "double \<Rightarrow> double \<Rightarrow> double \<Rightarrow> double \<Rightarrow> rowvec \<Rightarrow> rowvec \<Rightarrow> double \<Rightarrow> mat \<Rightarrow> bool" where
  "sufficientDecrease f_k f_0 sigma stepLength gradients_kMinus1 direction gamma Hessian_kMinus1 =
     dle (dsub f_k f_0)
       (dmul (dmul sigma stepLength)
          (dadd (dot gradients_kMinus1 direction)
                (dmul gamma (quadraticForm direction Hessian_kMinus1))))"

text \<open>The sizes of the arguments of the line search fit together.\<close>

definition sizesAgree :: "rowvec \<Rightarrow> rowvec \<Rightarrow> rowvec \<Rightarrow> mat \<Rightarrow> bool" where
  "sizesAgree parameters_kMinus1 direction gradients_kMinus1 Hessian_kMinus1 =
     (length parameters_kMinus1 = length direction \<and>
      length gradients_kMinus1 = length direction \<and>
      n_rows Hessian_kMinus1 = length direction \<and>
      n_cols Hessian_kMinus1 = length direction)"

text \<open>
  A candidate that is acceptable when no decrease is demanded: its combined fit is finite
  and not above the previous fit \<open>f_0\<close>, and its gradient is finite.
\<close>

definition finiteNotAbove ::
  "model \<Rightarrow> 'T smoothPenalty \<Rightarrow> stringVector \<Rightarrow> 'T \<Rightarrow> double \<Rightarrow> rowvec \<Rightarrow> bool" where
  "finiteNotAbove model_obj smoothPenalty_obj parameterLabels tuningParameters f_0 candidate =
     (is_finite (combinedFit model_obj smoothPenalty_obj parameterLabels tuningParameters candidate)
      \<and> dle (combinedFit model_obj smoothPenalty_obj parameterLabels tuningParameters candidate) f_0
      \<and> vec_is_finite (gradients model_obj candidate parameterLabels))"


section \<open>Example inputs\<close>


text \<open>
  A one-parameter objective \<open>f(x) = x^2\<close> with gradient \<open>2 x\<close>, a penalty that is
  zero everywhere, a 1 x 1 matrix, and a random source that always produces the same
  number.
\<close>

definition squareModel :: model where
  "squareModel =
     \<lparr>fit = (\<lambda>p labels. case p of [] \<Rightarrow> NaN | x # rest \<Rightarrow> dmul x x),
      gradients = (\<lambda>p labels. map (dmul (Finite 2)) p)\<rparr>"

definition noPenalty :: "unit smoothPenalty" where
  "noPenalty =
     \<lparr>getValue = (\<lambda>p labels t. Finite 0),
      getGradients = (\<lambda>p labels t. map (\<lambda>x. Finite 0) p)\<rparr>"

definition scalarMatrix :: "real \<Rightarrow> mat" where
  "scalarMatrix h = \<lparr>n_rows = 1, n_cols = 1, entries = (\<lambda>i j. Finite h)\<rparr>"

definition constantDraws :: "real \<Rightarrow> nat \<Rightarrow> double" where
  "constantDraws u = (\<lambda>n. Finite u)"

text \<open>
  An objective that exists for \<open>x >= 0\<close> only, \<open>f(x) = x^2\<close> there and infinite
  elsewhere, and an objective that is 0 everywhere but has no gradient.
\<close>

definition barrierModel :: model where
  "barrierModel =
     \<lparr>fit = (\<lambda>p labels. case p of Finite x # rest \<Rightarrow> if x < 0 then PInf else Finite (x * x)
                            | _ \<Rightarrow> NaN),
      gradients = (\<lambda>p labels. case p of Finite x # rest \<Rightarrow> if x < 0 then [NaN] else [Finite (2 * x)]
                            | _ \<Rightarrow> [NaN])\<rparr>"

definition flatModel :: model where
  "flatModel = \<lparr>fit = (\<lambda>p labels. Finite 0), gradients = (\<lambda>p labels. map (\<lambda>x. NaN) p)\<rparr>"

text \<open>
  For a 1 x 1 system \<open>solve\<close> is a division; a Hessian update that returns the previous
  approximation; and control settings with the gradient criterion.
\<close>

definition solveScalar :: "mat \<Rightarrow> rowvec \<Rightarrow> error + rowvec" where
  "solveScalar A b =
     (case (entries A 0 0, b) of
        (Finite a, [Finite y]) \<Rightarrow> if a = 0 then Inl SolveFailed else Inr [Finite (y / a)]
      | _ \<Rightarrow> Inl SolveFailed)"

definition keepHessian ::
  "rowvec \<Rightarrow> rowvec \<Rightarrow> mat \<Rightarrow> rowvec \<Rightarrow> rowvec \<Rightarrow> bool \<Rightarrow> double \<Rightarrow> bool \<Rightarrow> error + mat" where
  "keepHessian p0 g0 H p g cautious damping debug = Inr H"

definition exampleControl :: "real \<Rightarrow> int \<Rightarrow> int \<Rightarrow> controlBFGS" where
  "exampleControl h n l =
     \<lparr>control_initialHessian = scalarMatrix h,
      control_stepSize = Finite (1 / 2),
      control_sigma = Finite (1 / 100),
      control_gamma = Finite 0,
      control_maxIterOut = n,
      control_maxIterIn = 100,
      control_maxIterLine = l,
      control_breakOuter = Finite (1 / 1000000),
      control_breakInner = Finite (1 / 1000000),
      control_convergenceCriterion = gradients_criterion,
      control_verbose = 0\<rparr>"

section \<open>Properties\<close>

declare ridgeValueLoop.simps [simp del]
declare ridgeGradientsLoop.simps [simp del]
declare for_loop.simps [simp del]

subsection \<open>Arithmetic on doubles\<close>

lemma dadd_zero_right: "dadd a (Finite 0) = a"
  by (cases a) simp_all

lemma dsub_zero_right: "dsub a (Finite 0) = a"
  by (cases a) (simp_all add: dsub_def)


lemma dpow_Finite: "dpow (Finite s) n = Finite (s ^ n)"
  by (induction n) simp_all

lemma foldl_dadd_ones:
  "\<forall>a\<in>set xs. a = Finite 1 \<Longrightarrow> foldl dadd (Finite s) xs = Finite (s + real (length xs))"
  by (induction xs arbitrary: s) (auto simp: algebra_simps)

subsection \<open>The ridge penalty\<close>



lemma ridge_fast_path:
  "\<forall>a\<in>set (alpha tp). a = Finite 1 \<Longrightarrow>
   deq (dsum (alpha tp)) (Finite (real (n_elem (alpha tp))))"
  by (simp add: dsum_def deq_def n_elem_def foldl_dadd_ones)

text \<open>
  C5. If every \<open>alpha[i]\<close> is 1, \<open>getValue\<close> returns exactly 0 and \<open>getGradients\<close>
  returns the all-zero vector of the length of the parameters, whatever \<open>lambda\<close>,
  \<open>weights\<close> and the parameter values are.
\<close>

theorem ridge_disabled:
  assumes "\<forall>a\<in>set (alpha tuningParameters). a = Finite 1"
  shows "ridge_getValue parameterValues parameterLabels tuningParameters = Inr (Finite 0)
       \<and> ridge_getGradients parameterValues parameterLabels tuningParameters =
           Inr (replicate (length parameterValues) (Finite 0))"
  using ridge_fast_path[OF assms]
  by (simp add: ridge_getValue_def ridge_getGradients_def ridge_getValue_with_def
      ridge_getGradients_with_def n_elem_def)

theorem ridge_disabled_witness:
  "ridge_getValue [Finite 10, Finite (- 4)] [''a'', ''b'']
      \<lparr>alpha = [Finite 1, Finite 1], lambda = [Finite 3, Finite 5],
       weights = [Finite 2, Finite 7]\<rparr> = Inr (Finite 0)
   \<and> ridge_getGradients [Finite 10, Finite (- 4)] [''a'', ''b'']
      \<lparr>alpha = [Finite 1, Finite 1], lambda = [Finite 3, Finite 5],
       weights = [Finite 2, Finite 7]\<rparr> = Inr [Finite 0, Finite 0]"
  using ridge_disabled [of "\<lparr>alpha = [Finite 1, Finite 1], lambda = [Finite 3, Finite 5],
      weights = [Finite 2, Finite 7]\<rparr>" "[Finite 10, Finite (- 4)]" "[''a'', ''b'']"]
  by (simp add: numeral_2_eq_2)




subsection \<open>Loops\<close>

lemma for_loop_stop: "\<not> int i < n \<Longrightarrow> for_loop n body i s = Inr s"
  by (subst for_loop.simps) simp

lemma for_loop_continue:
  "int i < n \<Longrightarrow> body i s = Inr (s', Continue) \<Longrightarrow>
   for_loop n body i s = for_loop n body (Suc i) s'"
  by (subst for_loop.simps) simp

lemma for_loop_break:
  "int i < n \<Longrightarrow> body i s = Inr (s', Break) \<Longrightarrow> for_loop n body i s = Inr s'"
  by (subst for_loop.simps) simp

lemma for_loop_error:
  "int i < n \<Longrightarrow> body i s = Inl e \<Longrightarrow> for_loop n body i s = Inl e"
  by (subst for_loop.simps) simp


text \<open>The loop stops at the first index whose body breaks.\<close>

lemma for_loop_first_break:
  assumes "\<And>j s. i0 \<le> j \<Longrightarrow> j < i \<Longrightarrow> \<exists>s'. body j s = Inr (s', Continue)"
    and "\<And>s. \<exists>s'. body i s = Inr (s', Break) \<and> Q s'"
    and "int i < n" and "i0 \<le> i"
  shows "\<exists>s'. for_loop n body i0 s = Inr s' \<and> Q s'"
  using assms
proof (induction n body i0 s rule: for_loop.induct)
  case (1 n body i0 s)
  show ?case
  proof (cases "i0 = i")
    case True
    from "1.prems"(2)[of s] obtain s' where s': "body i s = Inr (s', Break)" "Q s'" by auto
    have "for_loop n body i s = Inr s'"
      using "1.prems"(3) s'(1) by (rule for_loop_break[where body = body])
    then show ?thesis using True s'(2) by simp
  next
    case False
    then have lt: "i0 < i" using "1.prems"(4) by simp
    then have n: "int i0 < n" using "1.prems"(3) by simp
    from "1.prems"(1)[of i0 s] lt obtain s' where s': "body i0 s = Inr (s', Continue)" by auto
    have step: "for_loop n body i0 s = for_loop n body (Suc i0) s'"
      using n s' by (rule for_loop_continue[where body = body])
    have "\<And>j s. Suc i0 \<le> j \<Longrightarrow> j < i \<Longrightarrow> \<exists>s'. body j s = Inr (s', Continue)"
      using "1.prems"(1) by simp
    then have "\<exists>s''. for_loop n body (Suc i0) s' = Inr s'' \<and> Q s''"
      using "1.IH"[of "(s', Continue)" s' Continue] n s' "1.prems"(2,3) lt by simp
    then show ?thesis using step by simp
  qed
qed

text \<open>Whatever the loop returns after at least one pass was left by some pass of the body.\<close>

lemma for_loop_result:
  assumes "for_loop n body i s = Inr s'" and "int i < n"
    and "\<And>j t t' c. i \<le> j \<Longrightarrow> int j < n \<Longrightarrow> body j t = Inr (t', c) \<Longrightarrow> Q j t'"
  shows "\<exists>j. i \<le> j \<and> int j < n \<and> Q j s'"
  using assms
proof (induction n body i s rule: for_loop.induct)
  case (1 n body i s)
  show ?case
  proof (cases "body i s")
    case (Inl e)
    then show ?thesis using "1.prems"(1,2) for_loop_error[of i n body s e] by simp
  next
    case (Inr b)
    obtain t c where b: "b = (t, c)" by (cases b)
    have Qi: "Q i t" using "1.prems"(3)[of i s t c] "1.prems"(2) Inr b by simp
    show ?thesis
    proof (cases c)
      case Break
      then have "for_loop n body i s = Inr t"
        using for_loop_break[of i n body s t] "1.prems"(2) Inr b by simp
      then show ?thesis using "1.prems"(1,2) Qi by auto
    next
      case Continue
      then have step: "for_loop n body i s = for_loop n body (Suc i) t"
        using for_loop_continue[of i n body s t] "1.prems"(2) Inr b by simp
      show ?thesis
      proof (cases "int (Suc i) < n")
        case True
        have "\<And>j t t' c. Suc i \<le> j \<Longrightarrow> int j < n \<Longrightarrow> body j t = Inr (t', c) \<Longrightarrow> Q j t'"
          using "1.prems"(3) by simp
        then have "\<exists>j. Suc i \<le> j \<and> int j < n \<and> Q j s'"
          using "1.IH"[of b t c] "1.prems"(1,2) step Inr b Continue True by simp
        then show ?thesis by (meson Suc_leD)
      next
        case False
        then have "s' = t" using step "1.prems"(1) for_loop_stop[of "Suc i" n body t] by simp
        then show ?thesis using "1.prems"(2) Qi by auto
      qed
    qed
  qed
qed


text \<open>An invariant carried through the loop gives a property of its result.\<close>

lemma for_loop_rule:
  assumes "for_loop n body i s = Inr s'" and "I i s"
    and "\<And>j t t'. i \<le> j \<Longrightarrow> int j < n \<Longrightarrow> I j t \<Longrightarrow> body j t = Inr (t', Continue) \<Longrightarrow> I (Suc j) t'"
    and "\<And>j t t'. i \<le> j \<Longrightarrow> int j < n \<Longrightarrow> I j t \<Longrightarrow> body j t = Inr (t', Break) \<Longrightarrow> Q t'"
    and "\<And>j t. i \<le> j \<Longrightarrow> \<not> int j < n \<Longrightarrow> I j t \<Longrightarrow> Q t"
  shows "Q s'"
  using assms
proof (induction n body i s rule: for_loop.induct)
  case (1 n body i s)
  show ?case
  proof (cases "int i < n")
    case False
    then have "s' = s" using "1.prems"(1) for_loop_stop[of i n body s] by simp
    then show ?thesis using "1.prems"(5)[of i s] False "1.prems"(2) by simp
  next
    case True
    show ?thesis
    proof (cases "body i s")
      case (Inl e)
      then show ?thesis using "1.prems"(1) True for_loop_error[of i n body s e] by simp
    next
      case (Inr b)
      obtain t c where b: "b = (t, c)" by (cases b)
      show ?thesis
      proof (cases c)
        case Break
        then have "for_loop n body i s = Inr t"
          using for_loop_break[of i n body s t] True Inr b by simp
        then have "s' = t" using "1.prems"(1) by simp
        then show ?thesis using "1.prems"(4)[of i s t] True "1.prems"(2) Inr b Break by simp
      next
        case Continue
        then have step: "for_loop n body (Suc i) t = Inr s'"
          using for_loop_continue[of i n body s t] True Inr b "1.prems"(1) by simp
        have I': "I (Suc i) t" using "1.prems"(3)[of i s t] True "1.prems"(2) Inr b Continue by simp
        show ?thesis
        proof (rule "1.IH"[of b t c, OF True Inr b[symmetric] Continue step I'])
          show "\<And>j t t'. Suc i \<le> j \<Longrightarrow> int j < n \<Longrightarrow> I j t \<Longrightarrow> body j t = Inr (t', Continue) \<Longrightarrow> I (Suc j) t'"
            using "1.prems"(3) Suc_leD by blast
          show "\<And>j t t'. Suc i \<le> j \<Longrightarrow> int j < n \<Longrightarrow> I j t \<Longrightarrow> body j t = Inr (t', Break) \<Longrightarrow> Q t'"
            using "1.prems"(4) Suc_leD by blast
          show "\<And>j t. Suc i \<le> j \<Longrightarrow> \<not> int j < n \<Longrightarrow> I j t \<Longrightarrow> Q t"
            using "1.prems"(5) Suc_leD by blast
        qed
      qed
    qed
  qed
qed

subsection \<open>One pass of the line search\<close>

lemma vec_plus_candidate:
  "length p = length d \<Longrightarrow> vec_plus p (scalar_times step d) = Inr (candidatePoint p step d)"
  by (simp add: vec_plus_def scalar_times_def candidatePoint_def)

lemma compareTo_sizes:
  "sizesAgree p d g H \<Longrightarrow>
   compareTo g d gamma H (Finite 0) (Finite 0) =
     Inr (dadd (dot g d) (dmul gamma (quadraticForm d H)))"
  by (simp add: sizesAgree_def compareTo_def row_times_col_def row_times_mat_def dot_def
      quadraticForm_def dadd_zero_right dsub_zero_right)

lemma lineSearchBody_nonfinite:
  assumes "length parameters_kMinus1 = length direction"
    and "\<not> is_finite (combinedFit model_obj smoothPenalty_obj parameterLabels tuningParameters
          (candidatePoint parameters_kMinus1 (dpow stepSize iteration) direction))"
  shows "lineSearchBody model_obj smoothPenalty_obj parameters_kMinus1 parameterLabels direction
       fit_kMinus1 gradients_kMinus1 Hessian_kMinus1 tuningParameters stepSize sigma gamma
       iteration st =
     Inr (st\<lparr>currentStepSize := dpow stepSize iteration,
             parameters_k := candidatePoint parameters_kMinus1 (dpow stepSize iteration) direction\<rparr>,
          Continue)"
  using assms(2)
  by (simp add: lineSearchBody_def vec_plus_candidate[OF assms(1)] combinedFit_def Let_def)

lemma lineSearchBody_finite:
  assumes "sizesAgree parameters_kMinus1 direction gradients_kMinus1 Hessian_kMinus1"
    and "is_finite (combinedFit model_obj smoothPenalty_obj parameterLabels tuningParameters
          (candidatePoint parameters_kMinus1 (dpow stepSize iteration) direction))"
  shows "lineSearchBody model_obj smoothPenalty_obj parameters_kMinus1 parameterLabels direction
       fit_kMinus1 gradients_kMinus1 Hessian_kMinus1 tuningParameters stepSize sigma gamma
       iteration st =
     (let step = dpow stepSize iteration;
          candidate = candidatePoint parameters_kMinus1 step direction;
          passed = sufficientDecrease
            (combinedFit model_obj smoothPenalty_obj parameterLabels tuningParameters candidate)
            fit_kMinus1 sigma step gradients_kMinus1 direction gamma Hessian_kMinus1;
          st2 = st\<lparr>currentStepSize := step, parameters_k := candidate, converged := passed\<rparr>
      in if passed then
           Inr (st2\<lparr>gradients_k := gradients model_obj candidate parameterLabels\<rparr>,
                if vec_is_finite (gradients model_obj candidate parameterLabels)
                then Break else Continue)
         else Inr (st2, Continue))"
proof -
  have len: "length parameters_kMinus1 = length direction"
    using assms(1) by (simp add: sizesAgree_def)
  show ?thesis
    using assms(2)
    by (simp add: lineSearchBody_def vec_plus_candidate[OF len] compareTo_sizes[OF assms(1)]
        combinedFit_def sufficientDecrease_def dadd_zero_right Let_def)
qed


lemma dle_dsub_zero: "is_finite f \<Longrightarrow> dle (dsub f f0) (Finite 0) = dle f f0"
  by (cases f; cases f0) (simp_all add: dsub_def)

lemma sufficientDecrease_sigma_zero:
  assumes "is_finite f" "is_finite step"
    and "is_finite (dadd (dot g d) (dmul gamma (quadraticForm d H)))"
  shows "sufficientDecrease f f0 (Finite 0) step g d gamma H = dle f f0"
proof -
  obtain s where s: "step = Finite s" using assms(2) by (cases step) simp_all
  obtain c where c: "dadd (dot g d) (dmul gamma (quadraticForm d H)) = Finite c"
    using assms(3) by (cases "dadd (dot g d) (dmul gamma (quadraticForm d H))") simp_all
  show ?thesis by (simp add: sufficientDecrease_def s c dle_dsub_zero[OF assms(1)])
qed

lemma is_finite_dpow: "is_finite x \<Longrightarrow> is_finite (dpow x n)"
  by (cases x) (simp_all add: dpow_Finite)

text \<open>The state the loop starts from matters only through what a pass does not overwrite.\<close>

lemma lineSearchBody_ignores_currentStepSize:
  "lineSearchBody model_obj smoothPenalty_obj parameters_kMinus1 parameterLabels direction
     fit_kMinus1 gradients_kMinus1 Hessian_kMinus1 tuningParameters stepSize sigma gamma
     iteration (st\<lparr>currentStepSize := x\<rparr>) =
   lineSearchBody model_obj smoothPenalty_obj parameters_kMinus1 parameterLabels direction
     fit_kMinus1 gradients_kMinus1 Hessian_kMinus1 tuningParameters stepSize sigma gamma
     iteration st"
  by (simp add: lineSearchBody_def Let_def split: sum.splits)

text \<open>Unfolding the definitions evaluates the line search on the example inputs.\<close>

lemmas eval_simps = bfgsLineSearch_def initialStepSize_def for_loop.simps lineSearchBody_def
  compareTo_def row_times_col_def row_times_mat_def vec_plus_def scalar_times_def
  squareModel_def noPenalty_def scalarMatrix_def constantDraws_def rowvec_n_rows_def
  dsum_def dsub_def vec_is_finite_def Let_def candidatePoint_def combinedFit_def

lemmas example_simps = squareModel_def noPenalty_def scalarMatrix_def constantDraws_def
  barrierModel_def flatModel_def candidatePoint_def combinedFit_def finiteNotAbove_def
  sizesAgree_def sufficientDecrease_def dot_def quadraticForm_def dsum_def dsub_def
  vec_is_finite_def initialStepSize_def inf_times_def



subsection \<open>One pass of the outer loop\<close>

lemma count_all:
  "(sum_list (map (\<lambda>x. if P x then 1 else 0) xs) = length xs) = (\<forall>x\<in>set xs. P x)"
proof -
  have le: "sum_list (map (\<lambda>x. if P x then 1 else (0::nat)) ys) \<le> length ys" for ys
    by (induction ys) auto
  show ?thesis
  proof (induction xs)
    case Nil
    then show ?case by simp
  next
    case (Cons a xs)
    show ?case using Cons le[of xs] by auto
  qed
qed


lemma checkConvergence_gradients:
  assumes "control_convergenceCriterion control_obj = gradients_criterion"
  shows "checkConvergence control_obj outer_iteration st =
     Inr (st\<lparr>outer_breakOuter :=
            (\<forall>x\<in>set (outer_gradients_k st). dlt (dabs x) (control_breakOuter control_obj))\<rparr>)"
  using assms by (simp add: checkConvergence_def count_all n_elem_def)

lemma bfgsLineSearch_warnings:
  assumes "bfgsLineSearch model_obj smoothPenalty_obj parameters_kMinus1 parameterLabels direction
        fit_kMinus1 gradients_kMinus1 Hessian_kMinus1 tuningParameters stepSize sigma gamma
        maxIterLine verbose unif k = Inr found"
  shows "set (warnings found) \<subseteq> {''Line search did not converge.''}"
  using assms by (auto simp: bfgsLineSearch_def Let_def split: sum.splits prod.splits if_splits)

text \<open>What a completed pass of the outer loop has done, under the gradient criterion.\<close>

lemma outerBody_gradients:
  assumes "control_convergenceCriterion control_obj = gradients_criterion"
    and "outerBody model_obj smoothPenalty_obj parameterLabels tuningParameters control_obj
          solve BFGS unif outer_iteration st = Inr (st', c)"
  shows "\<exists>g'. outer_gradientsSeen st' = outer_gradientsSeen st @ [g']
      \<and> vec_plus (gradients model_obj (outer_parameters_k st') parameterLabels)
           (getGradients smoothPenalty_obj (outer_parameters_k st') parameterLabels
              tuningParameters) = Inr g'
      \<and> outer_breakOuter st' = (\<forall>x\<in>set g'. dlt (dabs x) (control_breakOuter control_obj))
      \<and> (c = Break) = outer_breakOuter st'
      \<and> set (outer_warnings st') \<subseteq>
          set (outer_warnings st) \<union> {''Line search did not converge.''}"
  using assms(2)
  by (auto simp: outerBody_def Let_def checkConvergence_gradients[OF assms(1)]
      split: sum.splits if_splits dest: bfgsLineSearch_warnings[THEN subsetD])


lemma initialState_facts:
  assumes "initialState model_obj startingValuesRcpp smoothPenalty_obj tuningParameters
      control_obj k = Inr st0"
  shows "0 \<le> control_maxIterOut control_obj \<and> outer_gradientsSeen st0 = [] \<and>
      \<not> outer_breakOuter st0 \<and> outer_warnings st0 = []"
  using assms
  by (auto simp: initialState_def Let_def vec_set_def split: if_splits sum.splits)



lemmas optim_simps = bfgsOptim_def initialState_def outerBody_def checkConvergence_def
  vec_set_def vec_get_def solveScalar_def keepHessian_def exampleControl_def n_elem_def

subsection \<open>The line search\<close>






text \<open>
  C4. At a candidate whose combined fit \<open>f_k\<close> is finite, the test of the line search
  accepts (sets \<open>converged\<close>) if and only if
  \<open>f_k - f_0 <= sigma * stepLength * (gradients_kMinus1 . direction +
  gamma * direction^T * Hessian_kMinus1 * direction)\<close> with \<open>f_0\<close> the previous fit.
  The loop stops at this candidate exactly when, in addition, its gradient is finite.
\<close>

theorem lineSearch_decrease_test:
  assumes "sizesAgree parameters_kMinus1 direction gradients_kMinus1 Hessian_kMinus1"
    and "is_finite (combinedFit model_obj smoothPenalty_obj parameterLabels tuningParameters
          (candidatePoint parameters_kMinus1 (dpow stepSize iteration) direction))"
  shows "\<exists>st' c.
      lineSearchBody model_obj smoothPenalty_obj parameters_kMinus1 parameterLabels direction
        fit_kMinus1 gradients_kMinus1 Hessian_kMinus1 tuningParameters stepSize sigma gamma
        iteration st = Inr (st', c)
    \<and> converged st' =
        sufficientDecrease
          (combinedFit model_obj smoothPenalty_obj parameterLabels tuningParameters
             (candidatePoint parameters_kMinus1 (dpow stepSize iteration) direction))
          fit_kMinus1 sigma (dpow stepSize iteration) gradients_kMinus1 direction gamma
          Hessian_kMinus1
    \<and> (c = Break \<longleftrightarrow>
         converged st' \<and>
         vec_is_finite (gradients model_obj
           (candidatePoint parameters_kMinus1 (dpow stepSize iteration) direction)
           parameterLabels))"
  by (simp add: lineSearchBody_finite[OF assms] Let_def)

theorem lineSearch_decrease_test_witness:
  "\<exists>st' c.
      lineSearchBody squareModel noPenalty [Finite 1] [''x''] [Finite (- 1)] (Finite 1)
        [Finite 2] (scalarMatrix 2) () (Finite (1 / 2)) (Finite (1 / 100)) (Finite 0) 0
        \<lparr>gradients_k = [NaN], parameters_k = [NaN], currentStepSize = Finite (1 / 2),
         converged = False\<rparr> = Inr (st', c)
    \<and> converged st' \<and> c = Break"
proof -
  have sz: "sizesAgree [Finite 1] [Finite (- 1)] [Finite 2] (scalarMatrix 2)"
    by (simp add: example_simps)
  have fin: "is_finite (combinedFit squareModel noPenalty [''x''] ()
      (candidatePoint [Finite 1] (dpow (Finite (1 / 2)) 0) [Finite (- 1)]))"
    by (simp add: example_simps)
  show ?thesis
    using lineSearch_decrease_test [OF sz fin, of "Finite 1" "Finite (1 / 100)" "Finite 0"
        "\<lparr>gradients_k = [NaN], parameters_k = [NaN], currentStepSize = Finite (1 / 2),
         converged = False\<rparr>"]
    by (auto simp: example_simps)
qed






text \<open>
  A remark on the flag \<open>converged\<close>. It keeps the value of the last decrease test, also
  when the candidate that passed the test is then rejected for its gradient. With
  \<open>maxIterLine = 1\<close> such a candidate is returned, and no warning is emitted.
\<close>

lemma lineSearch_silent_rejection:
  assumes "sizesAgree parameters_kMinus1 direction gradients_kMinus1 Hessian_kMinus1"
    and "is_finite (combinedFit model_obj smoothPenalty_obj parameterLabels tuningParameters
          (candidatePoint parameters_kMinus1 (Finite 1) direction))"
    and "sufficientDecrease
          (combinedFit model_obj smoothPenalty_obj parameterLabels tuningParameters
             (candidatePoint parameters_kMinus1 (Finite 1) direction))
          fit_kMinus1 sigma (Finite 1) gradients_kMinus1 direction gamma Hessian_kMinus1"
    and "\<not> vec_is_finite (gradients model_obj
          (candidatePoint parameters_kMinus1 (Finite 1) direction) parameterLabels)"
  shows "bfgsLineSearch model_obj smoothPenalty_obj parameters_kMinus1 parameterLabels direction
        fit_kMinus1 gradients_kMinus1 Hessian_kMinus1 tuningParameters stepSize sigma gamma
        1 verbose unif k =
      Inr \<lparr>returned = candidatePoint parameters_kMinus1 (Finite 1) direction,
           warnings = [],
           drawn = snd (initialStepSize stepSize unif k)\<rparr>"
proof -
  let ?body = "lineSearchBody model_obj smoothPenalty_obj parameters_kMinus1 parameterLabels
      direction fit_kMinus1 gradients_kMinus1 Hessian_kMinus1 tuningParameters stepSize sigma gamma"
  have fin: "is_finite (combinedFit model_obj smoothPenalty_obj parameterLabels tuningParameters
          (candidatePoint parameters_kMinus1 (dpow stepSize 0) direction))"
    using assms(2) by simp
  have pass: "?body 0 st =
      Inr (st\<lparr>currentStepSize := Finite 1,
              parameters_k := candidatePoint parameters_kMinus1 (Finite 1) direction,
              converged := True,
              gradients_k := gradients model_obj
                (candidatePoint parameters_kMinus1 (Finite 1) direction) parameterLabels\<rparr>,
           Continue)" for st
    using assms(3,4) by (simp add: lineSearchBody_finite[OF assms(1) fin] Let_def)
  have "for_loop 1 ?body 0 st =
      Inr (st\<lparr>currentStepSize := Finite 1,
              parameters_k := candidatePoint parameters_kMinus1 (Finite 1) direction,
              converged := True,
              gradients_k := gradients model_obj
                (candidatePoint parameters_kMinus1 (Finite 1) direction) parameterLabels\<rparr>)" for st
    by (subst for_loop.simps) (simp add: pass for_loop_stop)
  then show ?thesis
    by (simp add: bfgsLineSearch_def split: prod.splits)
qed

lemma lineSearch_silent_rejection_example:
  "bfgsLineSearch flatModel noPenalty [Finite 1] [''x''] [Finite (- 4)] (Finite 1)
        [Finite 2] (scalarMatrix (1 / 2)) () (Finite (1 / 2)) (Finite (1 / 100)) (Finite 0)
        1 0 (constantDraws (1 / 2)) 0 =
      Inr \<lparr>returned = [Finite (- 3)], warnings = [], drawn = 1\<rparr>
   \<and> \<not> vec_is_finite (gradients flatModel [Finite (- 3)] [''x''])"
proof -
  have sz: "sizesAgree [Finite 1] [Finite (- 4)] [Finite 2] (scalarMatrix (1 / 2))"
    by (simp add: example_simps)
  have fin: "is_finite (combinedFit flatModel noPenalty [''x''] ()
          (candidatePoint [Finite 1] (Finite 1) [Finite (- 4)]))"
    by (simp add: example_simps)
  have dec: "sufficientDecrease
          (combinedFit flatModel noPenalty [''x''] ()
             (candidatePoint [Finite 1] (Finite 1) [Finite (- 4)]))
          (Finite 1) (Finite (1 / 100)) (Finite 1) [Finite 2] [Finite (- 4)] (Finite 0)
          (scalarMatrix (1 / 2))"
    by (simp add: example_simps)
  have nog: "\<not> vec_is_finite (gradients flatModel
          (candidatePoint [Finite 1] (Finite 1) [Finite (- 4)]) [''x''])"
    by (simp add: example_simps)
  show ?thesis
    using lineSearch_silent_rejection [OF sz fin dec nog, of "Finite (1 / 2)" 0
        "constantDraws (1 / 2)" 0]
    by (simp add: example_simps)
qed

text \<open>
  C10. If \<open>maxIterLine <= 0\<close> the body of the loop never runs: \<open>bfgsLineSearch\<close> returns
  the vector it was initialised with and warns. That vector has \<open>gradients_kMinus1.n_rows\<close>
  elements, all NaN, and a row vector has one row: the result is the one-element vector
  (NaN), whatever the length of the gradient.
\<close>

theorem lineSearch_no_iterations:
  assumes "maxIterLine \<le> 0"
  shows "bfgsLineSearch model_obj smoothPenalty_obj parameters_kMinus1 parameterLabels direction
        fit_kMinus1 gradients_kMinus1 Hessian_kMinus1 tuningParameters stepSize sigma gamma
        maxIterLine verbose unif k =
      Inr \<lparr>returned = [NaN], warnings = [''Line search did not converge.''],
           drawn = snd (initialStepSize stepSize unif k)\<rparr>"
proof -
  have "\<not> int 0 < maxIterLine" using assms by simp
  then show ?thesis
    by (simp add: bfgsLineSearch_def for_loop_stop rowvec_n_rows_def split: prod.splits)
qed

theorem lineSearch_no_iterations_witness:
  "bfgsLineSearch squareModel noPenalty [Finite 1, Finite 2] [''x'', ''y'']
        [Finite (- 4), Finite 0] (Finite 1) [Finite 2, Finite 0] (scalarMatrix (1 / 2)) ()
        (Finite (1 / 2)) (Finite (1 / 100)) (Finite 0) 0 0 (constantDraws (1 / 2)) 0 =
      Inr \<lparr>returned = [NaN], warnings = [''Line search did not converge.''], drawn = 1\<rparr>
   \<and> length [NaN] \<noteq> length [Finite 2, Finite 0]"
proof -
  have z: "(0::int) \<le> 0" by simp
  show ?thesis
    using lineSearch_no_iterations [OF z, of squareModel noPenalty "[Finite 1, Finite 2]"
        "[''x'', ''y'']" "[Finite (- 4), Finite 0]" "Finite 1" "[Finite 2, Finite 0]"
        "scalarMatrix (1 / 2)" "()" "Finite (1 / 2)" "Finite (1 / 100)" "Finite 0" 0
        "constantDraws (1 / 2)" 0]
    by (simp add: example_simps)
qed

text \<open>
  C1, as amended. With \<open>sigma = 0\<close>, a finite step size and a finite value of
  \<open>gradients_kMinus1 . direction + gamma * direction^T * Hessian_kMinus1 * direction\<close>,
  the test \<open>f_k - f_0 <= 0\<close> that remains demands that the fit does not go up:
  \<open>bfgsLineSearch\<close> returns, without a warning, the first candidate whose combined fit is
  finite and not above the previous fit and whose gradient is finite.
\<close>

theorem lineSearch_sigma_zero:
  assumes "sigma = Finite 0"
    and "sizesAgree parameters_kMinus1 direction gradients_kMinus1 Hessian_kMinus1"
    and "is_finite stepSize"
    and "is_finite (dadd (dot gradients_kMinus1 direction)
           (dmul gamma (quadraticForm direction Hessian_kMinus1)))"
    and "int i < maxIterLine"
    and "finiteNotAbove model_obj smoothPenalty_obj parameterLabels tuningParameters fit_kMinus1
           (candidatePoint parameters_kMinus1 (dpow stepSize i) direction)"
    and "\<forall>j<i. \<not> finiteNotAbove model_obj smoothPenalty_obj parameterLabels tuningParameters
           fit_kMinus1 (candidatePoint parameters_kMinus1 (dpow stepSize j) direction)"
  shows "bfgsLineSearch model_obj smoothPenalty_obj parameters_kMinus1 parameterLabels direction
        fit_kMinus1 gradients_kMinus1 Hessian_kMinus1 tuningParameters stepSize sigma gamma
        maxIterLine verbose unif k =
      Inr \<lparr>returned = candidatePoint parameters_kMinus1 (dpow stepSize i) direction,
           warnings = [],
           drawn = snd (initialStepSize stepSize unif k)\<rparr>"
proof -
  let ?body = "lineSearchBody model_obj smoothPenalty_obj parameters_kMinus1 parameterLabels
      direction fit_kMinus1 gradients_kMinus1 Hessian_kMinus1 tuningParameters stepSize
      (Finite 0) gamma"
  let ?cand = "\<lambda>j. candidatePoint parameters_kMinus1 (dpow stepSize j) direction"
  let ?fit = "\<lambda>j. combinedFit model_obj smoothPenalty_obj parameterLabels tuningParameters (?cand j)"
  have len: "length parameters_kMinus1 = length direction"
    using assms(2) by (simp add: sizesAgree_def)
  have test: "sufficientDecrease (?fit j) fit_kMinus1 (Finite 0) (dpow stepSize j)
      gradients_kMinus1 direction gamma Hessian_kMinus1 = dle (?fit j) fit_kMinus1"
    if "is_finite (?fit j)" for j
    using sufficientDecrease_sigma_zero[OF that is_finite_dpow[OF assms(3)] assms(4)] .
  have skip: "\<exists>s'. ?body j s = Inr (s', Continue)" if "j < i" for j s
  proof (cases "is_finite (?fit j)")
    case False
    show ?thesis by (simp add: lineSearchBody_nonfinite[OF len False])
  next
    case True
    have "\<not> (dle (?fit j) fit_kMinus1 \<and> vec_is_finite (gradients model_obj (?cand j) parameterLabels))"
      using assms(7) that True by (simp add: finiteNotAbove_def)
    then show ?thesis
      by (auto simp: lineSearchBody_finite[OF assms(2) True] test[OF True] Let_def)
  qed
  have fin: "is_finite (?fit i)" and le: "dle (?fit i) fit_kMinus1"
    and grad: "vec_is_finite (gradients model_obj (?cand i) parameterLabels)"
    using assms(6) by (simp_all add: finiteNotAbove_def)
  have stop: "\<exists>s'. ?body i s = Inr (s', Break) \<and> (parameters_k s' = ?cand i \<and> converged s')" for s
    using le grad by (simp add: lineSearchBody_finite[OF assms(2) fin] test[OF fin] Let_def)
  obtain working k' where init: "initialStepSize stepSize unif k = (working, k')"
    by (cases "initialStepSize stepSize unif k")
  let ?st0 = "\<lparr>gradients_k = replicate (rowvec_n_rows gradients_kMinus1) NaN,
                 parameters_k = replicate (rowvec_n_rows gradients_kMinus1) NaN,
                 currentStepSize = working, converged = False\<rparr>"
  have "\<exists>s'. for_loop maxIterLine ?body 0 ?st0 = Inr s' \<and> (parameters_k s' = ?cand i \<and> converged s')"
    using skip stop assms(5)
    by (intro for_loop_first_break[where body = ?body and i = i and
          Q = "\<lambda>s. parameters_k s = ?cand i \<and> converged s"]) auto
  then obtain s' where "for_loop maxIterLine ?body 0 ?st0 = Inr s'" "parameters_k s' = ?cand i"
    "converged s'" by blast
  then show ?thesis
    using init by (simp add: bfgsLineSearch_def assms(1))
qed

theorem lineSearch_sigma_zero_witness:
  "bfgsLineSearch squareModel noPenalty [Finite 1] [''x''] [Finite (- 4)] (Finite 1)
        [Finite 2] (scalarMatrix (1 / 2)) () (Finite (1 / 2)) (Finite 0) (Finite 0) 3 0
        (constantDraws (1 / 2)) 0 =
      Inr \<lparr>returned = [Finite (- 1)], warnings = [], drawn = 1\<rparr>"
proof -
  have "bfgsLineSearch squareModel noPenalty [Finite 1] [''x''] [Finite (- 4)] (Finite 1)
        [Finite 2] (scalarMatrix (1 / 2)) () (Finite (1 / 2)) (Finite 0) (Finite 0) 3 0
        (constantDraws (1 / 2)) 0 =
      Inr \<lparr>returned = candidatePoint [Finite 1] (dpow (Finite (1 / 2)) 1) [Finite (- 4)],
           warnings = [],
           drawn = snd (initialStepSize (Finite (1 / 2)) (constantDraws (1 / 2)) 0)\<rparr>"
    by (rule lineSearch_sigma_zero) (simp_all add: example_simps)
  then show ?thesis by (simp add: example_simps)
qed

text \<open>
  The claim as stated fails: from \<open>x = 1\<close> with direction \<open>-4\<close> and \<open>f(x) = x^2\<close>, the
  first candidate \<open>-3\<close> has a finite fit 9 and a finite gradient, but 9 is above the
  previous fit 1; with \<open>sigma = 0\<close> the search rejects it and returns the second
  candidate \<open>-1\<close>.
\<close>

theorem lineSearch_sigma_zero_counterexample:
  "candidatePoint [Finite 1] (dpow (Finite (1 / 2)) 0) [Finite (- 4)] = [Finite (- 3)]
   \<and> is_finite (combinedFit squareModel noPenalty [''x''] () [Finite (- 3)])
   \<and> vec_is_finite (gradients squareModel [Finite (- 3)] [''x''])
   \<and> bfgsLineSearch squareModel noPenalty [Finite 1] [''x''] [Finite (- 4)] (Finite 1)
        [Finite 2] (scalarMatrix (1 / 2)) () (Finite (1 / 2)) (Finite 0) (Finite 0) 3 0
        (constantDraws (1 / 2)) 0 =
      Inr \<lparr>returned = [Finite (- 1)], warnings = [], drawn = 1\<rparr>"
  by (simp add: eval_simps)

text \<open>
  C2. The random numbers are drawn and the working step size is reset, but every pass of
  the loop overwrites the working step size before reading it: what \<open>bfgsLineSearch\<close>
  returns and the warnings it emits are the same for every random source.
\<close>

theorem lineSearch_ignores_random_draws:
  "map_sum id (\<lambda>r. (returned r, warnings r))
     (bfgsLineSearch model_obj smoothPenalty_obj parameters_kMinus1 parameterLabels direction
        fit_kMinus1 gradients_kMinus1 Hessian_kMinus1 tuningParameters stepSize sigma gamma
        maxIterLine verbose unif k) =
   map_sum id (\<lambda>r. (returned r, warnings r))
     (bfgsLineSearch model_obj smoothPenalty_obj parameters_kMinus1 parameterLabels direction
        fit_kMinus1 gradients_kMinus1 Hessian_kMinus1 tuningParameters stepSize sigma gamma
        maxIterLine verbose unif' k')"
proof -
  let ?body = "lineSearchBody model_obj smoothPenalty_obj parameters_kMinus1 parameterLabels
      direction fit_kMinus1 gradients_kMinus1 Hessian_kMinus1 tuningParameters stepSize sigma gamma"
  have start: "map_sum id (\<lambda>s. (parameters_k s, converged s))
        (for_loop maxIterLine ?body 0 (st\<lparr>currentStepSize := x\<rparr>)) =
      map_sum id (\<lambda>s. (parameters_k s, converged s)) (for_loop maxIterLine ?body 0 st)"
    for st x
    by (subst (1 2) for_loop.simps) (simp add: lineSearchBody_ignores_currentStepSize)
  obtain w1 k1 where i1: "initialStepSize stepSize unif k = (w1, k1)"
    by (cases "initialStepSize stepSize unif k")
  obtain w2 k2 where i2: "initialStepSize stepSize unif' k' = (w2, k2)"
    by (cases "initialStepSize stepSize unif' k'")
  let ?st = "\<lambda>w. \<lparr>gradients_k = replicate (rowvec_n_rows gradients_kMinus1) NaN,
                 parameters_k = replicate (rowvec_n_rows gradients_kMinus1) NaN,
                 currentStepSize = w, converged = False\<rparr>"
  have "?st w1 = (?st w2)\<lparr>currentStepSize := w1\<rparr>" by simp
  then have "map_sum id (\<lambda>s. (parameters_k s, converged s)) (for_loop maxIterLine ?body 0 (?st w1)) =
      map_sum id (\<lambda>s. (parameters_k s, converged s)) (for_loop maxIterLine ?body 0 (?st w2))"
    using start[where st = "?st w2" and x = w1] by simp
  then show ?thesis
    unfolding bfgsLineSearch_def i1 i2
    by (cases "for_loop maxIterLine ?body 0 (?st w1)"; cases "for_loop maxIterLine ?body 0 (?st w2)")
       (auto simp: Let_def)
qed

subsection \<open>The optimizer\<close>

text \<open>
  C9. Under the gradient criterion, whenever \<open>bfgsOptim\<close> returns a result, its
  convergence flag is true exactly when in some pass of the outer loop every component
  of \<open>|gradients_k|\<close> was below \<open>breakOuter\<close>. The loop stops at the first such pass: no
  earlier pass had this property, the last one has it, and no warning about the outer
  iterations is emitted. If no pass has it, the loop runs all \<open>maxIterOut\<close> passes, the
  warning is emitted and the flag is false. The gradient of the last pass is the
  gradient of model and penalty at the returned parameters.
\<close>

theorem bfgsOptim_gradients_criterion:
  assumes "control_convergenceCriterion control_obj = gradients_criterion"
    and "bfgsOptim model_obj startingValuesRcpp smoothPenalty_obj tuningParameters control_obj
          solve BFGS unif k = Inr out"
  shows "res_convergence (optimResult out) =
        (\<exists>g\<in>set (optimGradients out). \<forall>x\<in>set g. dlt (dabs x) (control_breakOuter control_obj))
    \<and> (\<forall>g\<in>set (butlast (optimGradients out)).
          \<not> (\<forall>x\<in>set g. dlt (dabs x) (control_breakOuter control_obj)))
    \<and> (optimGradients out \<noteq> [] \<longrightarrow>
          vec_plus (gradients model_obj (res_parameterValues (optimResult out))
                      (snd startingValuesRcpp))
                   (getGradients smoothPenalty_obj (res_parameterValues (optimResult out))
                      (snd startingValuesRcpp) tuningParameters) =
            Inr (last (optimGradients out)))
    \<and> (res_convergence (optimResult out) \<longrightarrow>
          optimGradients out \<noteq> [] \<and>
          (\<forall>x\<in>set (last (optimGradients out)). dlt (dabs x) (control_breakOuter control_obj)) \<and>
          ''Outer iterations did not converge'' \<notin> set (optimWarnings out))
    \<and> (\<not> res_convergence (optimResult out) \<longrightarrow>
          int (length (optimGradients out)) = control_maxIterOut control_obj \<and>
          ''Outer iterations did not converge'' \<in> set (optimWarnings out))"
proof -
  let ?n = "control_maxIterOut control_obj"
  let ?L = "snd startingValuesRcpp"
  let ?body = "outerBody model_obj smoothPenalty_obj ?L tuningParameters control_obj solve BFGS unif"
  let ?below = "\<lambda>g. \<forall>x\<in>set g. dlt (dabs x) (control_breakOuter control_obj)"
  let ?grad = "\<lambda>st. vec_plus (gradients model_obj (outer_parameters_k st) ?L)
      (getGradients smoothPenalty_obj (outer_parameters_k st) ?L tuningParameters)"
  let ?lsw = "''Line search did not converge.''"
  define I where "I = (\<lambda>j (st::bfgsState). length (outer_gradientsSeen st) = j \<and> j \<le> nat ?n
      \<and> (\<forall>g\<in>set (outer_gradientsSeen st). \<not> ?below g) \<and> \<not> outer_breakOuter st
      \<and> set (outer_warnings st) \<subseteq> {?lsw}
      \<and> (outer_gradientsSeen st \<noteq> [] \<longrightarrow> ?grad st = Inr (last (outer_gradientsSeen st))))"
  define Q where "Q = (\<lambda>st::bfgsState. outer_breakOuter st = (\<exists>g\<in>set (outer_gradientsSeen st). ?below g)
      \<and> (\<forall>g\<in>set (butlast (outer_gradientsSeen st)). \<not> ?below g)
      \<and> (outer_gradientsSeen st \<noteq> [] \<longrightarrow> ?grad st = Inr (last (outer_gradientsSeen st)))
      \<and> (outer_breakOuter st \<longrightarrow> outer_gradientsSeen st \<noteq> [] \<and> ?below (last (outer_gradientsSeen st)))
      \<and> (\<not> outer_breakOuter st \<longrightarrow> length (outer_gradientsSeen st) = nat ?n)
      \<and> set (outer_warnings st) \<subseteq> {?lsw})"
  from assms(2) obtain st0 st where
    init: "initialState model_obj startingValuesRcpp smoothPenalty_obj tuningParameters
      control_obj k = Inr st0"
    and loop: "for_loop ?n ?body 0 st0 = Inr st"
    and out: "out = \<lparr>optimResult =
                 \<lparr>res_convergence = outer_breakOuter st,
                  res_fit = outer_penalizedFit_k st,
                  res_fits = outer_fits st,
                  res_parameterValues = outer_parameters_k st,
                  res_Hessian = outer_Hessian_k st\<rparr>,
               optimWarnings =
                 outer_warnings st @
                 (if \<not> outer_breakOuter st then [''Outer iterations did not converge'']
                  else []),
               optimDrawn = outer_drawn st,
               optimGradients = outer_gradientsSeen st\<rparr>"
    by (auto simp: bfgsOptim_def split: sum.splits)
  note i0 = initialState_facts[OF init]
  have I0: "I 0 st0" using i0 by (simp add: I_def)
  have cont: "I (Suc j) t'" if "int j < ?n" "I j t" "?body j t = Inr (t', Continue)" for j t t'
  proof -
    from outerBody_gradients[OF assms(1) that(3)] obtain g' where
      g': "outer_gradientsSeen t' = outer_gradientsSeen t @ [g']" "?grad t' = Inr g'"
        "outer_breakOuter t' = ?below g'" "(Continue = Break) = outer_breakOuter t'"
        "set (outer_warnings t') \<subseteq> set (outer_warnings t) \<union> {?lsw}" by blast
    show ?thesis using g' that(1,2) unfolding I_def by auto
  qed
  have brk: "Q t'" if "int j < ?n" "I j t" "?body j t = Inr (t', Break)" for j t t'
  proof -
    from outerBody_gradients[OF assms(1) that(3)] obtain g' where
      g': "outer_gradientsSeen t' = outer_gradientsSeen t @ [g']" "?grad t' = Inr g'"
        "outer_breakOuter t' = ?below g'" "(Break = Break) = outer_breakOuter t'"
        "set (outer_warnings t') \<subseteq> set (outer_warnings t) \<union> {?lsw}" by blast
    show ?thesis using g' that(1,2) unfolding I_def Q_def by auto
  qed
  have exhausted: "Q t" if "\<not> int j < ?n" "I j t" for j t
  proof -
    have "j = nat ?n" using that unfolding I_def by linarith
    then show ?thesis using that(2) unfolding I_def Q_def by (auto dest: in_set_butlastD)
  qed
  have "Q st"
    using loop I0 cont brk exhausted
    by (rule for_loop_rule[where body = ?body and I = I and Q = Q])
  then show ?thesis
    using i0 unfolding Q_def out by auto
qed

theorem bfgsOptim_gradients_criterion_witness:
  "(\<exists>out. bfgsOptim squareModel ([Finite 10], [''x'']) noPenalty () (exampleControl 2 3 10)
        solveScalar keepHessian (constantDraws (1 / 2)) 0 = Inr out
      \<and> res_convergence (optimResult out)
      \<and> res_parameterValues (optimResult out) = [Finite 0]
      \<and> optimGradients out = [[Finite 0]]
      \<and> ''Outer iterations did not converge'' \<notin> set (optimWarnings out))
   \<and> (\<exists>out. bfgsOptim squareModel ([Finite 10], [''x'']) noPenalty () (exampleControl 4 1 10)
        solveScalar keepHessian (constantDraws (1 / 2)) 0 = Inr out
      \<and> \<not> res_convergence (optimResult out)
      \<and> res_parameterValues (optimResult out) = [Finite 5]
      \<and> optimGradients out = [[Finite 10]]
      \<and> ''Outer iterations did not converge'' \<in> set (optimWarnings out))"
proof -
  have c1: "control_convergenceCriterion (exampleControl 2 3 10) = gradients_criterion"
    and c2: "control_convergenceCriterion (exampleControl 4 1 10) = gradients_criterion"
    by (simp_all add: exampleControl_def)
  obtain out1 where run1: "bfgsOptim squareModel ([Finite 10], [''x'']) noPenalty ()
      (exampleControl 2 3 10) solveScalar keepHessian (constantDraws (1 / 2)) 0 = Inr out1"
    and v1: "res_parameterValues (optimResult out1) = [Finite 0]"
      "optimGradients out1 = [[Finite 0]]"
    by (simp add: optim_simps eval_simps)
  obtain out2 where run2: "bfgsOptim squareModel ([Finite 10], [''x'']) noPenalty ()
      (exampleControl 4 1 10) solveScalar keepHessian (constantDraws (1 / 2)) 0 = Inr out2"
    and v2: "res_parameterValues (optimResult out2) = [Finite 5]"
      "optimGradients out2 = [[Finite 10]]"
    by (simp add: optim_simps eval_simps)
  have b1: "\<forall>x\<in>set [Finite 0]. dlt (dabs x) (control_breakOuter (exampleControl 2 3 10))"
    and b2: "\<not> (\<forall>x\<in>set [Finite 10]. dlt (dabs x) (control_breakOuter (exampleControl 4 1 10)))"
    by (simp_all add: exampleControl_def)
  show ?thesis
    using bfgsOptim_gradients_criterion [OF c1 run1] bfgsOptim_gradients_criterion [OF c2 run2]
      run1 run2 v1 v2 b1 b2
    by simp
qed


end
